theory Spec2Isabelle
  imports Main "HOL-Library.Word"
begin

section \<open>Strings\<close>

text \<open>
  A JavaScript string is a sequence of UTF-16 code units. \<open>String.prototype.trim\<close>
  removes, at both ends, the code units that ECMAScript calls WhiteSpace or
  LineTerminator. String literals of the source are written as Isabelle strings and
  converted code unit by code unit.
\<close>

type_synonym jsString = "16 word list"

definition js :: "string \<Rightarrow> jsString" where
  "js s = map of_char s"

definition isWhiteSpace :: "16 word \<Rightarrow> bool" where
  "isWhiteSpace c \<longleftrightarrow>
     c = 0x0009 \<or> c = 0x000A \<or> c = 0x000B \<or> c = 0x000C \<or> c = 0x000D \<or> c = 0x0020 \<or>
     c = 0x00A0 \<or> c = 0x1680 \<or> (0x2000 \<le> c \<and> c \<le> 0x200A) \<or> c = 0x2028 \<or>
     c = 0x2029 \<or> c = 0x202F \<or> c = 0x205F \<or> c = 0x3000 \<or> c = 0xFEFF"

definition trim :: "jsString \<Rightarrow> jsString" where
  "trim s = rev (dropWhile isWhiteSpace (rev (dropWhile isWhiteSpace s)))"

section \<open>The chat panel: data model\<close>

text \<open>
  \<open>ChatMessage\<close> of \<open>types.ts\<close>: a role, a list of parts each holding a text, an ISO 8601
  timestamp and an optional delivery status. The field \<open>text\<close> of a part is written
  \<open>text'\<close>.
\<close>

datatype Role = User | Model

datatype Status = Sent | Delivered | Read

record Part =
  text' :: jsString

record ChatMessage =
  role :: Role
  parts :: "Part list"
  timestamp :: jsString
  status :: "Status option"

text \<open>The state \<open>history\<close> of the component \<open>ChatBot\<close>.\<close>

record History =
  past :: "ChatMessage list list"
  present :: "ChatMessage list"
  future :: "ChatMessage list list"

section \<open>The chat panel: history updates\<close>

text \<open>
  Each function below is the updater that the source passes to \<open>setHistory\<close>: it maps
  the current history to the next one.

  \<open>setMessages\<close>: a streaming update replaces \<open>present\<close> only; any other update pushes
  the current \<open>present\<close> on \<open>past\<close> and empties \<open>future\<close>.
\<close>

definition setMessages :: "ChatMessage list \<Rightarrow> bool \<Rightarrow> History \<Rightarrow> History" where
  "setMessages newMessages isStreamingUpdate current =
     (if isStreamingUpdate then current\<lparr>present := newMessages\<rparr>
      else \<lparr>past = past current @ [present current],
            present = newMessages,
            future = []\<rparr>)"

text \<open>
  \<open>handleUndo\<close> and \<open>handleRedo\<close>. The handler tests the history of the last render
  and the updater works on the current one; a click is handled on the rendered state, so
  both are the same history \<open>h\<close> here. Under the guard the index read is in range.
\<close>

definition handleUndo :: "History \<Rightarrow> History" where
  "handleUndo h =
     (if length (past h) = 0 then h
      else
        let previous = past h ! (length (past h) - 1);
            newPast = take (length (past h) - 1) (past h)
        in \<lparr>past = newPast, present = previous, future = present h # future h\<rparr>)"

definition handleRedo :: "History \<Rightarrow> History" where
  "handleRedo h =
     (if length (future h) = 0 then h
      else
        let next = future h ! 0;
            newFuture = drop 1 (future h)
        in \<lparr>past = past h @ [present h], present = next, future = newFuture\<rparr>)"

text \<open>
  The updater of the streaming loop of \<open>sendMessage\<close>: it copies \<open>present\<close> and assigns
  a model message holding the text accumulated so far at index \<open>length - 1\<close>. On an empty
  array that index is \<open>-1\<close>, which is no array index: JavaScript then adds a property
  named \<open>-1\<close> and the array keeps no element, so the list stays empty.
\<close>

definition modelMessage :: "jsString \<Rightarrow> jsString \<Rightarrow> ChatMessage" where
  "modelMessage txt now =
     \<lparr>role = Model, parts = [\<lparr>text' = txt\<rparr>], timestamp = now, status = None\<rparr>"

definition chunkUpdate :: "jsString \<Rightarrow> jsString \<Rightarrow> History \<Rightarrow> History" where
  "chunkUpdate currentModelMessage now h =
     (let newMessages = present h
      in h\<lparr>present :=
            (if newMessages = [] then newMessages
             else newMessages[length newMessages - 1 := modelMessage currentModelMessage now])\<rparr>)"

section \<open>The chat panel: component state and handlers\<close>

text \<open>
  The state of \<open>ChatBot\<close> together with the browser's local storage. \<open>chat\<close> is \<open>None\<close>
  for \<open>null\<close>; a session is represented by the list of the messages submitted to the
  provider through it, so that a request is a visible change of the state.
\<close>

type_synonym Storage = "jsString \<rightharpoonup> jsString"

record ChatBot =
  chat :: "jsString list option"
  history :: History
  input :: jsString
  isLoading :: bool
  localStorage :: Storage

definition historyKey :: jsString where
  "historyKey = js ''gemini-chat-history''"

definition greeting :: "jsString \<Rightarrow> ChatMessage" where
  "greeting now = modelMessage (js ''Hello! How can I help you today?'') now"

definition initErrorMessage :: "jsString \<Rightarrow> ChatMessage" where
  "initErrorMessage now =
     modelMessage (js ''Error: Could not initialize AI model. Please check your API key.'') now"

definition sendErrorMessage :: "jsString \<Rightarrow> ChatMessage" where
  "sendErrorMessage now =
     modelMessage (js ''Sorry, I encountered an error. Please try again.'') now"

text \<open>The state given to \<open>useState\<close> before any effect has run.\<close>

definition initialState :: "Storage \<Rightarrow> ChatBot" where
  "initialState storage =
     \<lparr>chat = None, history = \<lparr>past = [], present = [], future = []\<rparr>, input = [],
      isLoading = False, localStorage = storage\<rparr>"

text \<open>
  The effect run once on mount. \<open>created\<close> tells whether building the client and the
  chat session returns (otherwise it throws and the \<open>catch\<close> block runs); \<open>parse\<close> is
  \<open>JSON.parse\<close> at the type of a message list, \<open>None\<close> where it throws. A stored item
  is used when it is truthy, that is a non-empty string.
\<close>

definition initEffect ::
  "bool \<Rightarrow> (jsString \<Rightarrow> ChatMessage list option) \<Rightarrow> jsString \<Rightarrow> ChatBot \<Rightarrow> ChatBot" where
  "initEffect created parse now s =
     (let failed = \<lparr>past = [], present = [initErrorMessage now], future = []\<rparr>
      in if \<not> created then s\<lparr>history := failed\<rparr>
         else
           let s1 = s\<lparr>chat := Some []\<rparr>
           in case localStorage s historyKey of
                None \<Rightarrow> s1\<lparr>history := \<lparr>past = [], present = [greeting now], future = []\<rparr>\<rparr>
              | Some savedHistory \<Rightarrow>
                  if savedHistory = []
                  then s1\<lparr>history := \<lparr>past = [], present = [greeting now], future = []\<rparr>\<rparr>
                  else (case parse savedHistory of
                          None \<Rightarrow> s1\<lparr>history := failed\<rparr>
                        | Some saved \<Rightarrow>
                            s1\<lparr>history := \<lparr>past = [], present = saved, future = []\<rparr>\<rparr>))"

text \<open>
  The effect run after every render in which \<open>messages\<close>, the \<open>present\<close> list, has
  changed. \<open>stringify\<close> is \<open>JSON.stringify\<close>.
\<close>

definition persistEffect :: "(ChatMessage list \<Rightarrow> jsString) \<Rightarrow> ChatBot \<Rightarrow> ChatBot" where
  "persistEffect stringify s =
     (let messages = present (history s)
      in if length messages > 1
         then s\<lparr>localStorage := (localStorage s)(historyKey \<mapsto> stringify messages)\<rparr>
         else s)"

text \<open>\<open>handleClear\<close>; \<open>confirmed\<close> is the answer of \<open>window.confirm\<close>.\<close>

definition handleClear :: "bool \<Rightarrow> jsString \<Rightarrow> ChatBot \<Rightarrow> ChatBot" where
  "handleClear confirmed now s =
     (if confirmed
      then
        let initialMessage = greeting now
        in s\<lparr>history := \<lparr>past = [], present = [initialMessage], future = []\<rparr>,
              localStorage := (localStorage s)(historyKey := None)\<rparr>
      else s)"

text \<open>
  While a send is in progress the input and the send button are disabled, but the undo,
  redo and clear buttons are not: their clicks are handled between the steps of
  \<open>sendMessage\<close>. A click on the clear button is one that the user confirms, with the
  time of the new greeting; the button is disabled while \<open>present\<close> has at most one
  message.
\<close>

datatype Click = ClickUndo | ClickRedo | ClickClear jsString

fun click :: "Click \<Rightarrow> ChatBot \<Rightarrow> ChatBot" where
  "click ClickUndo s = s\<lparr>history := handleUndo (history s)\<rparr>"
| "click ClickRedo s = s\<lparr>history := handleRedo (history s)\<rparr>"
| "click (ClickClear now) s =
     (if length (present (history s)) \<le> 1 then s else handleClear True now s)"

fun clicks :: "Click list \<Rightarrow> ChatBot \<Rightarrow> ChatBot" where
  "clicks [] s = s"
| "clicks (c # cs) s = clicks cs (click c s)"

text \<open>
  \<open>currentModelMessage += chunk.text\<close>. The text of a chunk is \<open>None\<close> when the chunk
  carries no text: \<open>chunk.text\<close> is then \<open>undefined\<close>, and \<open>+=\<close> appends the nine
  characters of that word.
\<close>

definition appendText :: "jsString \<Rightarrow> jsString option \<Rightarrow> jsString" where
  "appendText currentModelMessage chunkText =
     currentModelMessage @ (case chunkText of None \<Rightarrow> js ''undefined'' | Some t \<Rightarrow> t)"

text \<open>
  \<open>sendMessage\<close>. What happens while the send is in progress is an input of the
  model. The request throws, after some clicks; or it returns a stream, after some
  clicks, and the stream gives chunks and then ends normally or by throwing, after some
  more clicks. A chunk is given with the clicks handled while the loop waits for it,
  its text and the time at which its updater runs. \<open>streamChunks\<close> is the
  \<open>for await\<close> loop; it returns the state after each chunk, in order. The three times
  of \<open>sendMessage\<close> are those of the user message, of the empty model message and of the
  error message.
\<close>

type_synonym Chunk = "Click list \<times> jsString option \<times> jsString"

datatype StreamResult =
  RequestFailed "Click list"
| Streamed "Click list" "Chunk list" "Click list" bool

fun streamChunks :: "jsString \<Rightarrow> Chunk list \<Rightarrow> ChatBot \<Rightarrow> ChatBot list" where
  "streamChunks currentModelMessage [] s = []"
| "streamChunks currentModelMessage ((before, chunkText, now) # chunks) s =
     (let s0 = clicks before s;
          currentModelMessage' = appendText currentModelMessage chunkText;
          s' = s0\<lparr>history := chunkUpdate currentModelMessage' now (history s0)\<rparr>
      in s' # streamChunks currentModelMessage' chunks s')"

definition userMessage :: "jsString \<Rightarrow> ChatBot \<Rightarrow> ChatMessage" where
  "userMessage tUser s =
     \<lparr>role = User, parts = [\<lparr>text' = input s\<rparr>], timestamp = tUser, status = Some Sent\<rparr>"

text \<open>
  The steps of \<open>sendMessage\<close> before the first \<open>await\<close> (\<open>beginSend\<close>, which also
  submits the request), and the state once the stream has been opened and the empty
  model message added (\<open>openStream\<close>). \<open>messages\<close>, \<open>userMessage\<close> and \<open>input\<close> are
  those of the render in which the handler was created, whatever has been clicked
  since.
\<close>

definition beginSend :: "jsString \<Rightarrow> ChatBot \<Rightarrow> ChatBot" where
  "beginSend tUser s =
     (let messages = present (history s)
      in s\<lparr>history := setMessages (messages @ [userMessage tUser s]) False (history s),
            input := [],
            isLoading := True,
            chat := map_option (\<lambda>sent. sent @ [input s]) (chat s)\<rparr>)"

definition openStream :: "jsString \<Rightarrow> jsString \<Rightarrow> Click list \<Rightarrow> ChatBot \<Rightarrow> ChatBot" where
  "openStream tUser tModel waiting s =
     (let messages = present (history s);
          s1 = clicks waiting (beginSend tUser s)
      in s1\<lparr>history :=
              setMessages (messages @ [userMessage tUser s, modelMessage [] tModel]) True
                (history s1)\<rparr>)"

definition sendMessage ::
  "jsString \<Rightarrow> jsString \<Rightarrow> jsString \<Rightarrow> StreamResult \<Rightarrow> ChatBot \<Rightarrow> ChatBot" where
  "sendMessage tUser tModel tError result s =
     (if trim (input s) = [] \<or> chat s = None \<or> isLoading s then s
      else
        let messages = present (history s);
            failure = messages @ [userMessage tUser s, sendErrorMessage tError];
            s4 = (case result of
                    RequestFailed waiting \<Rightarrow>
                      let s1 = clicks waiting (beginSend tUser s)
                      in s1\<lparr>history := setMessages failure False (history s1)\<rparr>
                  | Streamed waiting chunks trailing throws \<Rightarrow>
                      let s2 = openStream tUser tModel waiting s;
                          s3 = clicks trailing (last (s2 # streamChunks [] chunks s2))
                      in if throws
                         then s3\<lparr>history := setMessages failure False (history s3)\<rparr>
                         else s3)
        in s4\<lparr>isLoading := False\<rparr>)"

text \<open>
  The calls of \<open>setHistory\<close> in the component, as one type: \<open>setMessages\<close>, the chunk
  updater, undo, redo, and the calls that install a history with empty \<open>past\<close> and
  \<open>future\<close> (the three of the mount effect and the one of \<open>handleClear\<close>).
  \<open>snapshotsNonEmpty\<close> says that no message list kept in a history is empty.
\<close>

datatype HistoryUpdate =
  SetMessages "ChatMessage list" bool
| ChunkUpdate jsString jsString
| Undo
| Redo
| Reset "ChatMessage list"

fun applyUpdate :: "HistoryUpdate \<Rightarrow> History \<Rightarrow> History" where
  "applyUpdate (SetMessages newMessages isStreamingUpdate) h =
     setMessages newMessages isStreamingUpdate h"
| "applyUpdate (ChunkUpdate currentModelMessage now) h = chunkUpdate currentModelMessage now h"
| "applyUpdate Undo h = handleUndo h"
| "applyUpdate Redo h = handleRedo h"
| "applyUpdate (Reset messages) h = \<lparr>past = [], present = messages, future = []\<rparr>"

fun isStreaming :: "HistoryUpdate \<Rightarrow> bool" where
  "isStreaming (SetMessages newMessages isStreamingUpdate) = isStreamingUpdate"
| "isStreaming (ChunkUpdate currentModelMessage now) = True"
| "isStreaming u = False"

fun isReset :: "HistoryUpdate \<Rightarrow> bool" where
  "isReset (Reset messages) = True"
| "isReset u = False"

fun installed :: "HistoryUpdate \<Rightarrow> History \<Rightarrow> ChatMessage list" where
  "installed (SetMessages newMessages isStreamingUpdate) h = newMessages"
| "installed (ChunkUpdate currentModelMessage now) h =
     present (chunkUpdate currentModelMessage now h)"
| "installed Undo h = last (past h)"
| "installed Redo h = hd (future h)"
| "installed (Reset messages) h = messages"

definition snapshotsNonEmpty :: "History \<Rightarrow> bool" where
  "snapshotsNonEmpty h \<longleftrightarrow> present h \<noteq> [] \<and> [] \<notin> set (past h) \<and> [] \<notin> set (future h)"

section \<open>The live audio agent\<close>

text \<open>
  An entry of the transcript, and the part of a server message that \<open>onmessage\<close> reads.
  A transcription is represented by the string that \<open>+=\<close> appends for its text;
  \<open>audioData\<close> is the value of \<open>modelTurn?.parts[0]?.inlineData?.data\<close>, \<open>None\<close> when
  the chain gives \<open>undefined\<close>.
\<close>

record TranscriptEntry =
  speaker :: Role
  entryText :: jsString

record ServerContent =
  outputTranscription :: "jsString option"
  inputTranscription :: "jsString option"
  turnComplete :: bool
  interrupted :: bool
  audioData :: "jsString option"

record LiveServerMessage =
  serverContent :: "ServerContent option"

text \<open>
  The state of \<open>LiveAgent\<close> that the message handler touches. Times are JavaScript
  numbers; the model asks of them a linear order, an addition and a zero, and nothing
  more. \<open>started\<close> records the calls of \<open>source.start\<close> in order, each with the start
  time passed and the duration of the buffer; a source is named by its position in this
  list. \<open>outputAudioContext\<close> tells whether the output context is set.
  \<open>pending\<close> holds the audio data of the handlers that wait for
  \<open>decodeAudioData\<close>, in order of arrival.
\<close>

record 't LiveAgent =
  transcripts :: "TranscriptEntry list"
  currentInputTranscription :: jsString
  currentOutputTranscription :: jsString
  nextStartTime :: 't
  playingSources :: "nat set"
  outputAudioContext :: bool
  started :: "('t \<times> 't) list"
  pending :: "jsString list"

text \<open>
  What optional chaining gives for \<open>message.serverContent?.turnComplete\<close>,
  \<open>?.interrupted\<close> and the audio data: a missing \<open>serverContent\<close> gives
  \<open>undefined\<close>, which is falsy.
\<close>

definition turnCompleteOf :: "LiveServerMessage \<Rightarrow> bool" where
  "turnCompleteOf message =
     (case serverContent message of None \<Rightarrow> False | Some c \<Rightarrow> turnComplete c)"

definition interruptedOf :: "LiveServerMessage \<Rightarrow> bool" where
  "interruptedOf message =
     (case serverContent message of None \<Rightarrow> False | Some c \<Rightarrow> interrupted c)"

definition base64AudioOf :: "LiveServerMessage \<Rightarrow> jsString option" where
  "base64AudioOf message =
     (case serverContent message of None \<Rightarrow> None | Some c \<Rightarrow> audioData c)"

definition accumulate :: "LiveServerMessage \<Rightarrow> 't LiveAgent \<Rightarrow> 't LiveAgent" where
  "accumulate message s =
     (case serverContent message of
        None \<Rightarrow> s
      | Some c \<Rightarrow>
          (case outputTranscription c of
             Some t \<Rightarrow> s\<lparr>currentOutputTranscription := currentOutputTranscription s @ t\<rparr>
           | None \<Rightarrow>
               (case inputTranscription c of
                  Some t \<Rightarrow> s\<lparr>currentInputTranscription := currentInputTranscription s @ t\<rparr>
                | None \<Rightarrow> s)))"

definition flushTurn :: "LiveServerMessage \<Rightarrow> 't LiveAgent \<Rightarrow> 't LiveAgent" where
  "flushTurn message s =
     (if turnCompleteOf message
      then
        let userText = trim (currentInputTranscription s);
            modelText = trim (currentOutputTranscription s);
            prev1 = (if userText \<noteq> []
                     then transcripts s @ [\<lparr>speaker = User, entryText = userText\<rparr>]
                     else transcripts s);
            prev2 = (if modelText \<noteq> []
                     then prev1 @ [\<lparr>speaker = Model, entryText = modelText\<rparr>]
                     else prev1)
        in s\<lparr>transcripts := prev2,
              currentInputTranscription := [],
              currentOutputTranscription := []\<rparr>
      else s)"

definition interrupt :: "LiveServerMessage \<Rightarrow> 't::zero LiveAgent \<Rightarrow> 't LiveAgent" where
  "interrupt message s =
     (if interruptedOf message
      then s\<lparr>playingSources := {}, nextStartTime := 0\<rparr>
      else s)"

text \<open>
  Scheduling of a received frame. The handler raises \<open>nextStartTime\<close> to the time of
  the audio context, awaits \<open>decodeAudioData\<close> (of \<open>utils/media\<close>) and then starts
  the source at the value that \<open>nextStartTime\<close> has by then. \<open>beforeDecode\<close> is the
  part before the \<open>await\<close>, \<open>afterDecode\<close> the part after it, for the waiting handler
  number \<open>i\<close>; \<open>bufferDuration\<close> gives the duration of the buffer decoded from the
  data. Stopping a source and the \<open>ended\<close> event of a source, which removes it from
  \<open>playingSources\<close>, leave the times alone and are not recorded.
\<close>

definition awaitsDecode :: "LiveServerMessage \<Rightarrow> 't LiveAgent \<Rightarrow> bool" where
  "awaitsDecode message s =
     (case base64AudioOf message of
        None \<Rightarrow> False
      | Some base64Audio \<Rightarrow> base64Audio \<noteq> [] \<and> outputAudioContext s)"

definition beforeDecode ::
  "'t \<Rightarrow> LiveServerMessage \<Rightarrow> 't::linorder LiveAgent \<Rightarrow> 't LiveAgent" where
  "beforeDecode currentTime message s =
     (case base64AudioOf message of
        None \<Rightarrow> s
      | Some base64Audio \<Rightarrow>
          if base64Audio \<noteq> [] \<and> outputAudioContext s
          then s\<lparr>nextStartTime := max (nextStartTime s) currentTime,
                 pending := pending s @ [base64Audio]\<rparr>
          else s)"

definition afterDecode ::
  "(jsString \<Rightarrow> 't) \<Rightarrow> nat \<Rightarrow> 't::plus LiveAgent \<Rightarrow> 't LiveAgent" where
  "afterDecode bufferDuration i s =
     (if i < length (pending s)
      then
        let duration = bufferDuration (pending s ! i);
            startTime = nextStartTime s
        in s\<lparr>nextStartTime := startTime + duration,
              started := started s @ [(startTime, duration)],
              playingSources := insert (length (started s)) (playingSources s),
              pending := take i (pending s) @ drop (Suc i) (pending s)\<rparr>
      else s)"

text \<open>
  \<open>upToAwait\<close> is the handler from its start to the \<open>await\<close>, or to its end when it
  has no audio to decode. An event of the live session is a message received at some
  context time, or the end of the decoding that a waiting handler awaits; \<open>run\<close>
  handles a list of events in order.
\<close>

definition upToAwait ::
  "'t \<Rightarrow> LiveServerMessage \<Rightarrow> 't::{linorder,zero} LiveAgent \<Rightarrow> 't LiveAgent" where
  "upToAwait currentTime message s =
     beforeDecode currentTime message
       (interrupt message (flushTurn message (accumulate message s)))"




text \<open>
  \<open>onmessage\<close> is the handler of one message run to its end with no other event in
  between: the decoding it awaits, if any, is the next event. \<open>onmessages\<close> handles the
  messages received one after the other in this way, each with the context time at
  which it is handled.
\<close>

definition onmessage ::
  "(jsString \<Rightarrow> 't) \<Rightarrow> 't \<Rightarrow> LiveServerMessage \<Rightarrow> 't::{linorder,plus,zero} LiveAgent
     \<Rightarrow> 't LiveAgent" where
  "onmessage bufferDuration currentTime message s =
     (if awaitsDecode message s
      then afterDecode bufferDuration (length (pending s)) (upToAwait currentTime message s)
      else upToAwait currentTime message s)"

fun onmessages ::
  "(jsString \<Rightarrow> 't) \<Rightarrow> ('t \<times> LiveServerMessage) list \<Rightarrow> 't::{linorder,plus,zero} LiveAgent
     \<Rightarrow> 't LiveAgent" where
  "onmessages bufferDuration [] s = s"
| "onmessages bufferDuration ((currentTime, message) # rest) s =
     onmessages bufferDuration rest (onmessage bufferDuration currentTime message s)"






section \<open>Facts about strings and lists\<close>

lemma trim_empty_iff: "trim s = [] \<longleftrightarrow> (\<forall>c\<in>set s. isWhiteSpace c)"
proof -
  have "trim s = [] \<longleftrightarrow> (\<forall>c\<in>set (dropWhile isWhiteSpace s). isWhiteSpace c)"
    by (simp add: trim_def dropWhile_eq_Nil_conv)
  also have "\<dots> \<longleftrightarrow> dropWhile isWhiteSpace s = []"
  proof (cases "dropWhile isWhiteSpace s")
    case Nil
    show ?thesis unfolding Nil by simp
  next
    case (Cons x xs)
    then have "\<not> isWhiteSpace x"
      using hd_dropWhile [of isWhiteSpace s] by simp
    then show ?thesis using Cons by auto
  qed
  finally show ?thesis by (simp add: dropWhile_eq_Nil_conv)
qed

lemma take_nth_last:
  "xs \<noteq> [] \<Longrightarrow> take (length xs - Suc 0) xs @ [xs ! (length xs - Suc 0)] = xs"
  by (induction xs) (auto simp: take_Cons' nth_Cons')

section \<open>Undo and redo\<close>

text \<open>
  C2. A non-streaming \<open>setMessages\<close> with the new list \<open>M\<close> appends the old \<open>present\<close>
  at the end of \<open>past\<close>, makes \<open>M\<close> the \<open>present\<close> and empties \<open>future\<close>; a redo right
  after it changes nothing.
\<close>

theorem setMessages_edit:
  "past (setMessages M False h) = past h @ [present h] \<and>
   present (setMessages M False h) = M \<and>
   future (setMessages M False h) = [] \<and>
   handleRedo (setMessages M False h) = setMessages M False h"
  by (simp add: setMessages_def handleRedo_def)

text \<open>
  C3. Undo and redo are inverse to each other: redo after undo gives the history back
  when \<open>past\<close> is not empty, undo after redo gives it back when \<open>future\<close> is not empty;
  undo on an empty \<open>past\<close> and redo on an empty \<open>future\<close> change nothing.
\<close>

theorem undo_redo_inverse:
  "(past h \<noteq> [] \<longrightarrow> handleRedo (handleUndo h) = h) \<and>
   (future h \<noteq> [] \<longrightarrow> handleUndo (handleRedo h) = h) \<and>
   (past h = [] \<longrightarrow> handleUndo h = h) \<and>
   (future h = [] \<longrightarrow> handleRedo h = h)"
proof (intro conjI impI)
  assume p: "past h \<noteq> []"
  then show "handleRedo (handleUndo h) = h"
    by (simp add: handleUndo_def handleRedo_def Let_def take_nth_last)
next
  assume f: "future h \<noteq> []"
  then obtain x xs where fx: "future h = x # xs"
    by (cases "future h") auto
  then show "handleUndo (handleRedo h) = h"
    by (simp add: handleUndo_def handleRedo_def Let_def)
next
  assume "past h = []"
  then show "handleUndo h = h" by (simp add: handleUndo_def)
next
  assume "future h = []"
  then show "handleRedo h = h" by (simp add: handleRedo_def)
qed

text \<open>
  The theorem at a history in the middle of the stack (both directions apply) and at the
  history right after start-up (both stacks empty).
\<close>

theorem undo_redo_inverse_witness:
  "past \<lparr>past = [[greeting []]], present = [greeting [], greeting [1]],
         future = [[greeting [2]]]\<rparr> \<noteq> [] \<and>
   handleRedo (handleUndo \<lparr>past = [[greeting []]], present = [greeting [], greeting [1]],
         future = [[greeting [2]]]\<rparr>) =
     \<lparr>past = [[greeting []]], present = [greeting [], greeting [1]],
         future = [[greeting [2]]]\<rparr> \<and>
   future \<lparr>past = [[greeting []]], present = [greeting [], greeting [1]],
         future = [[greeting [2]]]\<rparr> \<noteq> [] \<and>
   handleUndo (handleRedo \<lparr>past = [[greeting []]], present = [greeting [], greeting [1]],
         future = [[greeting [2]]]\<rparr>) =
     \<lparr>past = [[greeting []]], present = [greeting [], greeting [1]],
         future = [[greeting [2]]]\<rparr> \<and>
   past \<lparr>past = [], present = [greeting []], future = []\<rparr> = [] \<and>
   handleUndo \<lparr>past = [], present = [greeting []], future = []\<rparr> =
     \<lparr>past = [], present = [greeting []], future = []\<rparr> \<and>
   future \<lparr>past = [], present = [greeting []], future = []\<rparr> = [] \<and>
   handleRedo \<lparr>past = [], present = [greeting []], future = []\<rparr> =
     \<lparr>past = [], present = [greeting []], future = []\<rparr>"
  using undo_redo_inverse
          [of "\<lparr>past = [[greeting []]], present = [greeting [], greeting [1]],
                future = [[greeting [2]]]\<rparr>"]
        undo_redo_inverse [of "\<lparr>past = [], present = [greeting []], future = []\<rparr>"]
  by simp

section \<open>Sending a message\<close>

text \<open>
  C9. When the input is empty or holds white space only, or no chat session has been
  created, or a send is in progress, \<open>sendMessage\<close> returns the state as it is: history,
  input, loading flag and the list of requests submitted through the session.
\<close>

theorem sendMessage_guard:
  "(\<forall>c\<in>set (input s). isWhiteSpace c) \<or> chat s = None \<or> isLoading s \<Longrightarrow>
   sendMessage tUser tModel tError result s = s"
  by (auto simp: sendMessage_def trim_empty_iff)

theorem sendMessage_guard_witness:
  "list_all isWhiteSpace
     (input \<lparr>chat = Some [], history = \<lparr>past = [], present = [greeting []], future = []\<rparr>,
             input = js ''  '', isLoading = False, localStorage = Map.empty\<rparr>) \<and>
   sendMessage [] [] [] (Streamed [] [([], Some (js ''Hi''), [])] [] False)
     \<lparr>chat = Some [], history = \<lparr>past = [], present = [greeting []], future = []\<rparr>,
      input = js ''  '', isLoading = False, localStorage = Map.empty\<rparr> =
     \<lparr>chat = Some [], history = \<lparr>past = [], present = [greeting []], future = []\<rparr>,
      input = js ''  '', isLoading = False, localStorage = Map.empty\<rparr>"
proof -
  have ws: "list_all isWhiteSpace (input \<lparr>chat = Some [],
              history = \<lparr>past = [], present = [greeting []], future = []\<rparr>,
              input = js ''  '', isLoading = False, localStorage = Map.empty\<rparr>)"
    by (simp add: js_def isWhiteSpace_def)
  from ws sendMessage_guard [of "\<lparr>chat = Some [],
              history = \<lparr>past = [], present = [greeting []], future = []\<rparr>,
              input = js ''  '', isLoading = False, localStorage = Map.empty\<rparr>"
            "[]" "[]" "[]" "Streamed [] [([], Some (js ''Hi''), [])] [] False"]
  show ?thesis by (simp add: list_all_iff)
qed

section \<open>Undo, redo and clear on non-empty snapshots\<close>

lemma handleUndo_nonempty:
  "past h \<noteq> [] \<Longrightarrow>
   handleUndo h =
     \<lparr>past = butlast (past h), present = last (past h), future = present h # future h\<rparr>"
  by (simp add: handleUndo_def Let_def butlast_conv_take last_conv_nth)

lemma handleRedo_nonempty:
  "future h \<noteq> [] \<Longrightarrow>
   handleRedo h =
     \<lparr>past = past h @ [present h], present = hd (future h), future = tl (future h)\<rparr>"
  by (simp add: handleRedo_def Let_def hd_conv_nth drop_Suc)

lemma handleUndo_empty: "past h = [] \<Longrightarrow> handleUndo h = h"
  by (simp add: handleUndo_def)

lemma handleRedo_empty: "future h = [] \<Longrightarrow> handleRedo h = h"
  by (simp add: handleRedo_def)

lemma handleUndo_snapshots: "snapshotsNonEmpty h \<Longrightarrow> snapshotsNonEmpty (handleUndo h)"
proof (cases "past h = []")
  case True
  then show "snapshotsNonEmpty h \<Longrightarrow> ?thesis" by (simp add: handleUndo_empty)
next
  case False
  assume inv: "snapshotsNonEmpty h"
  have "last (past h) \<noteq> []"
    using inv False by (metis last_in_set snapshotsNonEmpty_def)
  moreover have "[] \<notin> set (butlast (past h))"
    using inv by (auto simp: snapshotsNonEmpty_def dest: in_set_butlastD)
  ultimately show ?thesis
    using inv False by (auto simp: handleUndo_nonempty snapshotsNonEmpty_def)
qed

lemma handleRedo_snapshots: "snapshotsNonEmpty h \<Longrightarrow> snapshotsNonEmpty (handleRedo h)"
proof (cases "future h")
  case Nil
  then show "snapshotsNonEmpty h \<Longrightarrow> ?thesis" by (simp add: handleRedo_empty)
next
  case (Cons x xs)
  assume "snapshotsNonEmpty h"
  then show ?thesis
    using Cons by (auto simp: handleRedo_nonempty snapshotsNonEmpty_def)
qed

lemma click_snapshots:
  "snapshotsNonEmpty (history s) \<Longrightarrow> snapshotsNonEmpty (history (click c s))"
proof (cases c)
  case ClickUndo
  then show "snapshotsNonEmpty (history s) \<Longrightarrow> ?thesis" by (simp add: handleUndo_snapshots)
next
  case ClickRedo
  then show "snapshotsNonEmpty (history s) \<Longrightarrow> ?thesis" by (simp add: handleRedo_snapshots)
next
  case (ClickClear now)
  then show "snapshotsNonEmpty (history s) \<Longrightarrow> ?thesis"
    by (simp add: handleClear_def snapshotsNonEmpty_def Let_def)
qed

lemma clicks_snapshots:
  "snapshotsNonEmpty (history s) \<Longrightarrow> snapshotsNonEmpty (history (clicks cs s))"
  by (induction cs arbitrary: s) (simp_all add: click_snapshots)

lemma clicks_Nil: "clicks [] s = s"
  by simp

section \<open>Streaming\<close>

lemma streamChunks_length: "length (streamChunks cur chunks s) = length chunks"
  by (induction chunks arbitrary: cur s) (auto simp: Let_def)

lemma chunkUpdate_last:
  "present h \<noteq> [] \<Longrightarrow>
   present (chunkUpdate tx now h) \<noteq> [] \<and>
   last (present (chunkUpdate tx now h)) = modelMessage tx now"
  by (simp add: chunkUpdate_def Let_def last_list_update)

lemma list_update_last: "xs \<noteq> [] \<Longrightarrow> xs[length xs - Suc 0 := x] = butlast xs @ [x]"
  by (cases xs rule: rev_cases) simp_all

lemma chunkUpdate_present:
  "present h \<noteq> [] \<Longrightarrow>
   chunkUpdate tx now h = h\<lparr>present := butlast (present h) @ [modelMessage tx now]\<rparr>"
  by (simp add: chunkUpdate_def Let_def list_update_last)

lemma chunkUpdate_frame:
  "length (present (chunkUpdate tx now h)) = length (present h) \<and>
   (\<forall>i. Suc i < length (present h) \<longrightarrow> present (chunkUpdate tx now h) ! i = present h ! i) \<and>
   butlast (present (chunkUpdate tx now h)) = butlast (present h) \<and>
   past (chunkUpdate tx now h) = past h \<and>
   future (chunkUpdate tx now h) = future h"
  by (auto simp: chunkUpdate_def Let_def butlast_list_update)

lemma chunkUpdate_snapshots:
  "snapshotsNonEmpty h \<Longrightarrow> snapshotsNonEmpty (chunkUpdate tx now h)"
  by (simp add: chunkUpdate_def Let_def snapshotsNonEmpty_def)

lemma beginSend_snapshots:
  "snapshotsNonEmpty (history s) \<Longrightarrow> snapshotsNonEmpty (history (beginSend tUser s))"
  by (auto simp: beginSend_def setMessages_def Let_def snapshotsNonEmpty_def)

lemma openStream_snapshots:
  "snapshotsNonEmpty (history s) \<Longrightarrow>
   snapshotsNonEmpty (history (openStream tUser tModel waiting s))"
proof -
  assume "snapshotsNonEmpty (history s)"
  then have "snapshotsNonEmpty (history (clicks waiting (beginSend tUser s)))"
    by (simp add: clicks_snapshots beginSend_snapshots)
  then show ?thesis
    by (simp add: openStream_def setMessages_def Let_def snapshotsNonEmpty_def)
qed

text \<open>
  Whatever is clicked while the stream runs, after the chunk number \<open>k\<close> the last
  message of \<open>present\<close> is the model message that holds what \<open>+=\<close> has accumulated
  from the chunks 0 to \<open>k\<close>, provided that no message list of the history is empty.
\<close>

lemma streamChunks_nth:
  "snapshotsNonEmpty (history s) \<Longrightarrow> k < length chunks \<Longrightarrow>
   snapshotsNonEmpty (history (streamChunks cur chunks s ! k)) \<and>
   last (present (history (streamChunks cur chunks s ! k))) =
     modelMessage (foldl appendText cur (map (\<lambda>c. fst (snd c)) (take (Suc k) chunks)))
       (snd (snd (chunks ! k)))"
proof (induction chunks arbitrary: cur s k)
  case Nil
  then show ?case by simp
next
  case (Cons c chunks)
  obtain before tx now where c: "c = (before, tx, now)" by (cases c)
  let ?a = "clicks before s"
  let ?b = "?a\<lparr>history := chunkUpdate (appendText cur tx) now (history ?a)\<rparr>"
  have inv0: "snapshotsNonEmpty (history ?a)"
    using Cons.prems(1) by (rule clicks_snapshots)
  then have inv: "snapshotsNonEmpty (history ?b)"
    by (simp add: chunkUpdate_snapshots)
  have lst: "last (present (history ?b)) = modelMessage (appendText cur tx) now"
    using inv0 chunkUpdate_last [of "history ?a"] by (simp add: snapshotsNonEmpty_def)
  show ?case
  proof (cases k)
    case 0
    then show ?thesis using inv lst by (simp add: c Let_def)
  next
    case (Suc j)
    then have "j < length chunks" using Cons.prems(2) by simp
    from Cons.IH [OF inv this, of "appendText cur tx"] show ?thesis
      by (simp add: c Let_def Suc)
  qed
qed

lemma foldl_appendText_Some:
  "\<forall>c\<in>set cs. fst (snd c) \<noteq> None \<Longrightarrow>
   foldl appendText cur (map (\<lambda>c. fst (snd c)) cs) =
     cur @ concat (map (\<lambda>c. the (fst (snd c))) cs)"
  by (induction cs arbitrary: cur) (auto simp: appendText_def)

text \<open>
  When every chunk carries a text, the accumulated text is the concatenation of the
  texts of the chunks.
\<close>

lemma streaming_accumulates:
  assumes "snapshotsNonEmpty (history s)" and "k < length chunks"
    and "\<forall>c\<in>set chunks. fst (snd c) \<noteq> None"
  shows "last (present (history
           (streamChunks [] chunks (openStream tUser tModel waiting s) ! k))) =
         modelMessage (concat (map (\<lambda>c. the (fst (snd c))) (take (Suc k) chunks)))
           (snd (snd (chunks ! k)))"
proof -
  have "\<forall>c\<in>set (take (Suc k) chunks). fst (snd c) \<noteq> None"
    using assms(3) by (meson in_set_takeD)
  then have "foldl appendText [] (map (\<lambda>c. fst (snd c)) (take (Suc k) chunks)) =
               concat (map (\<lambda>c. the (fst (snd c))) (take (Suc k) chunks))"
    using foldl_appendText_Some [of "take (Suc k) chunks" "[]"] by simp
  then show ?thesis
    using streamChunks_nth [where cur = "[]",
        OF openStream_snapshots [OF assms(1), of tUser tModel waiting] assms(2)]
    by simp
qed

text \<open>
  When nothing is clicked during the stream, each chunk update replaces the last message
  and nothing else; after a stream opened with no click before it, that last message is
  the model message added for this send.
\<close>

lemma streamChunks_no_clicks:
  "present (history s) \<noteq> [] \<Longrightarrow> \<forall>c\<in>set chunks. fst c = [] \<Longrightarrow> k < length chunks \<Longrightarrow>
   streamChunks cur chunks s ! k =
     s\<lparr>history := (history s)\<lparr>present :=
          butlast (present (history s))
          @ [modelMessage (foldl appendText cur (map (\<lambda>c. fst (snd c)) (take (Suc k) chunks)))
               (snd (snd (chunks ! k)))]\<rparr>\<rparr>"
proof (induction chunks arbitrary: cur s k)
  case Nil
  then show ?case by simp
next
  case (Cons c chunks)
  obtain tx now where c: "c = ([], tx, now)"
    using Cons.prems(2) by (cases c) auto
  let ?s = "s\<lparr>history := chunkUpdate (appendText cur tx) now (history s)\<rparr>"
  have upd: "chunkUpdate (appendText cur tx) now (history s) =
               (history s)\<lparr>present := butlast (present (history s))
                                      @ [modelMessage (appendText cur tx) now]\<rparr>"
    using Cons.prems(1) by (rule chunkUpdate_present)
  show ?case
  proof (cases k)
    case 0
    then show ?thesis by (simp add: c Let_def upd)
  next
    case (Suc j)
    then have j: "j < length chunks" using Cons.prems(3) by simp
    have ne: "present (history ?s) \<noteq> []" by (simp add: upd)
    have rest: "\<forall>c\<in>set chunks. fst c = []" using Cons.prems(2) by simp
    from Cons.IH [OF ne rest j, of "appendText cur tx"] show ?thesis
      by (simp add: c Let_def Suc upd)
  qed
qed

lemma stream_without_clicks:
  assumes "\<forall>c\<in>set chunks. fst c = []" and "k < length chunks"
  shows "history (streamChunks [] chunks (openStream tUser tModel [] s) ! k) =
           \<lparr>past = past (history s) @ [present (history s)],
            present = present (history s)
              @ [userMessage tUser s,
                 modelMessage (foldl appendText [] (map (\<lambda>c. fst (snd c)) (take (Suc k) chunks)))
                   (snd (snd (chunks ! k)))],
            future = []\<rparr>"
proof -
  let ?s = "openStream tUser tModel [] s"
  have h: "history ?s =
             \<lparr>past = past (history s) @ [present (history s)],
              present = present (history s) @ [userMessage tUser s, modelMessage [] tModel],
              future = []\<rparr>"
    by (simp add: openStream_def beginSend_def setMessages_def Let_def)
  then have ne: "present (history ?s) \<noteq> []" by simp
  have bl: "butlast (present (history ?s)) = present (history s) @ [userMessage tUser s]"
    by (simp add: h butlast_append)
  show ?thesis
    by (simp add: streamChunks_no_clicks [OF ne assms] bl) (simp add: h)
qed

text \<open>
  C4. The claim fails on the code for a chunk that carries no text. With the chunks
  \<open>a\<close> and then one without text, the model message ends as \<open>aundefined\<close>, which is
  not the concatenation \<open>a\<close> of the texts received.
\<close>

theorem textless_chunk_appends_undefined:
  "last (present (history
     (sendMessage (js ''t0'') (js ''t0'') (js ''t0'')
        (Streamed [] [([], Some (js ''a''), js ''t1''), ([], None, js ''t2'')] [] False)
        \<lparr>chat = Some [], history = \<lparr>past = [], present = [greeting []], future = []\<rparr>,
         input = js ''Hi'', isLoading = False, localStorage = Map.empty\<rparr>))) =
     modelMessage (js ''aundefined'') (js ''t2'') \<and>
   js ''aundefined'' \<noteq> js ''a''"
  by (simp add: sendMessage_def openStream_def beginSend_def setMessages_def chunkUpdate_def
      appendText_def userMessage_def Let_def trim_def isWhiteSpace_def js_def)

text \<open>
  C5. The claim fails on the code when undo is clicked while the stream runs. After the
  first chunk the user clicks undo, which makes the list that holds only the greeting the
  \<open>present\<close> list; the update of the second chunk then replaces the greeting, a message
  appended before the send, by the model message.
\<close>

theorem undo_during_stream_overwrites:
  "present (history (clicks [ClickUndo]
     (streamChunks [] [([], Some (js ''Hel''), js ''t1''), ([ClickUndo], Some (js ''lo''), js ''t2'')]
        (openStream (js ''t0'') (js ''t0'') []
           \<lparr>chat = Some [], history = \<lparr>past = [], present = [greeting []], future = []\<rparr>,
            input = js ''Hi'', isLoading = False, localStorage = Map.empty\<rparr>) ! 0))) =
     [greeting []] \<and>
   history (sendMessage (js ''t0'') (js ''t0'') (js ''t0'')
        (Streamed [] [([], Some (js ''Hel''), js ''t1''), ([ClickUndo], Some (js ''lo''), js ''t2'')]
           [] False)
        \<lparr>chat = Some [], history = \<lparr>past = [], present = [greeting []], future = []\<rparr>,
         input = js ''Hi'', isLoading = False, localStorage = Map.empty\<rparr>) =
     \<lparr>past = [],
      present = [modelMessage (js ''Hello'') (js ''t2'')],
      future = [[greeting [],
                 \<lparr>role = User, parts = [\<lparr>text' = js ''Hi''\<rparr>], timestamp = js ''t0'',
                  status = Some Sent\<rparr>,
                 modelMessage (js ''Hel'') (js ''t1'')]]\<rparr> \<and>
   modelMessage (js ''Hello'') (js ''t2'') \<noteq> greeting []"
  by (simp add: sendMessage_def openStream_def beginSend_def setMessages_def chunkUpdate_def
      appendText_def userMessage_def handleUndo_def greeting_def modelMessage_def Let_def
      trim_def isWhiteSpace_def js_def)

section \<open>Persistence and clearing\<close>

text \<open>
  C8, as the code has it. The effect writes the serialised \<open>present\<close> list under the
  key when the list has more than one message and leaves the storage as it is otherwise.
  On mount, when the chat session has been created, a non-empty item is stored under
  the key and it parses, the parsed list becomes \<open>present\<close>, with \<open>past\<close> and \<open>future\<close>
  empty.
\<close>

theorem persistence:
  "(length (present (history s)) > 1 \<longrightarrow>
      persistEffect stringify s =
        s\<lparr>localStorage := (localStorage s)(historyKey \<mapsto> stringify (present (history s)))\<rparr>) \<and>
   (length (present (history s)) \<le> 1 \<longrightarrow> persistEffect stringify s = s) \<and>
   (localStorage s historyKey = Some savedHistory \<and> savedHistory \<noteq> [] \<and>
    parse savedHistory = Some saved \<longrightarrow>
      history (initEffect True parse now s) = \<lparr>past = [], present = saved, future = []\<rparr>)"
  by (auto simp: persistEffect_def initEffect_def Let_def)

theorem persistence_witness:
  "localStorage
     (persistEffect (\<lambda>messages. js ''json'')
        \<lparr>chat = Some [], history = \<lparr>past = [], present = [greeting [], greeting [1]], future = []\<rparr>,
         input = [], isLoading = False, localStorage = Map.empty\<rparr>) historyKey = Some (js ''json'') \<and>
   persistEffect (\<lambda>messages. js ''json'')
        \<lparr>chat = Some [], history = \<lparr>past = [], present = [greeting []], future = []\<rparr>,
         input = [], isLoading = False, localStorage = Map.empty\<rparr> =
        \<lparr>chat = Some [], history = \<lparr>past = [], present = [greeting []], future = []\<rparr>,
         input = [], isLoading = False, localStorage = Map.empty\<rparr> \<and>
   history (initEffect True (\<lambda>saved. Some [greeting [], greeting [1]]) []
              (initialState [historyKey \<mapsto> js ''json''])) =
     \<lparr>past = [], present = [greeting [], greeting [1]], future = []\<rparr>"
proof -
  have j: "js ''json'' \<noteq> []" by (simp add: js_def)
  from j
    persistence [of "\<lparr>chat = Some [],
         history = \<lparr>past = [], present = [greeting [], greeting [1]], future = []\<rparr>,
         input = [], isLoading = False, localStorage = Map.empty\<rparr>" "\<lambda>messages. js ''json''"]
    persistence [of "\<lparr>chat = Some [],
         history = \<lparr>past = [], present = [greeting []], future = []\<rparr>,
         input = [], isLoading = False, localStorage = Map.empty\<rparr>" "\<lambda>messages. js ''json''"]
    persistence [of "initialState [historyKey \<mapsto> js ''json'']" _ "js ''json''"
      "\<lambda>saved. Some [greeting [], greeting [1]]" "[greeting [], greeting [1]]" "[]"]
  show ?thesis by (simp add: initialState_def)
qed

text \<open>
  The claim as the specification states it fails: a \<open>present\<close> list of one message is
  not written, and a stored list is not restored when the chat session cannot be
  created.
\<close>

theorem persistence_counterexample:
  "localStorage
     (persistEffect (\<lambda>messages. js ''json'')
        \<lparr>chat = Some [], history = \<lparr>past = [], present = [greeting []], future = []\<rparr>,
         input = [], isLoading = False, localStorage = Map.empty\<rparr>) historyKey = None \<and>
   present (history
     (initEffect False (\<lambda>saved. Some [greeting [], greeting [1]]) []
        (initialState [historyKey \<mapsto> js ''json'']))) = [initErrorMessage []]"
  by (simp add: persistEffect_def initEffect_def initialState_def Let_def)

text \<open>
  C10. A confirmed clear leaves the history with empty \<open>past\<close> and \<open>future\<close> and the
  greeting, a model message, as the only message of \<open>present\<close>; the key is gone from the
  local storage, and the persistence effect that follows does not write it again. Undo
  and redo change nothing in that history.
\<close>

theorem handleClear_resets:
  "history (handleClear True now s) = \<lparr>past = [], present = [greeting now], future = []\<rparr> \<and>
   role (greeting now) = Model \<and>
   localStorage (handleClear True now s) historyKey = None \<and>
   handleUndo (history (handleClear True now s)) = history (handleClear True now s) \<and>
   handleRedo (history (handleClear True now s)) = history (handleClear True now s) \<and>
   persistEffect stringify (handleClear True now s) = handleClear True now s"
  by (simp add: handleClear_def Let_def handleUndo_def handleRedo_def persistEffect_def
      greeting_def modelMessage_def)

theorem handleClear_resets_witness:
  "history (handleClear True (js ''t'')
      \<lparr>chat = Some [], history = \<lparr>past = [[greeting []]], present = [greeting [], greeting [1]],
         future = []\<rparr>, input = [], isLoading = False,
       localStorage = [historyKey \<mapsto> js ''json'']\<rparr>) =
     \<lparr>past = [], present = [greeting (js ''t'')], future = []\<rparr> \<and>
   localStorage (handleClear True (js ''t'')
      \<lparr>chat = Some [], history = \<lparr>past = [[greeting []]], present = [greeting [], greeting [1]],
         future = []\<rparr>, input = [], isLoading = False,
       localStorage = [historyKey \<mapsto> js ''json'']\<rparr>) historyKey = None"
  using handleClear_resets [of "js ''t''"
      "\<lparr>chat = Some [], history = \<lparr>past = [[greeting []]], present = [greeting [], greeting [1]],
         future = []\<rparr>, input = [], isLoading = False,
       localStorage = [historyKey \<mapsto> js ''json'']\<rparr>"]
  by simp

section \<open>Which updates move the stacks\<close>

lemma butlast_neq: "xs \<noteq> [] \<Longrightarrow> butlast xs \<noteq> xs"
  by (metis append_butlast_last_id append_self_conv list.distinct(1))

lemma tl_neq: "xs \<noteq> [] \<Longrightarrow> tl xs \<noteq> xs"
  by (cases xs) auto

lemma handleUndo_moves:
  "past h \<noteq> [] \<Longrightarrow>
   past (handleUndo h) \<noteq> past h \<and> future (handleUndo h) \<noteq> future h \<and>
   present (handleUndo h) = last (past h)"
  by (simp add: handleUndo_nonempty butlast_neq)

lemma handleRedo_moves:
  "future h \<noteq> [] \<Longrightarrow>
   past (handleRedo h) \<noteq> past h \<and> future (handleRedo h) \<noteq> future h \<and>
   present (handleRedo h) = hd (future h)"
  by (simp add: handleRedo_nonempty tl_neq)

lemma streaming_keeps_stacks:
  "isStreaming u \<Longrightarrow>
   past (applyUpdate u h) = past h \<and> future (applyUpdate u h) = future h"
  by (cases u) (simp_all add: setMessages_def chunkUpdate_def Let_def)

lemma present_alone:
  "present (applyUpdate u h) \<noteq> present h \<Longrightarrow> past (applyUpdate u h) = past h \<Longrightarrow>
   future (applyUpdate u h) = future h \<Longrightarrow>
   isStreaming u \<or> (isReset u \<and> past h = [] \<and> future h = [])"
proof (cases u)
  case (SetMessages M b)
  then show "past (applyUpdate u h) = past h \<Longrightarrow> ?thesis"
    by (cases b) (simp_all add: setMessages_def)
next
  case (ChunkUpdate tx now)
  then show ?thesis by simp
next
  case Undo
  then show "present (applyUpdate u h) \<noteq> present h \<Longrightarrow> past (applyUpdate u h) = past h \<Longrightarrow>
             ?thesis"
    using handleUndo_moves [of h] handleUndo_empty [of h] by (cases "past h = []") auto
next
  case Redo
  then show "present (applyUpdate u h) \<noteq> present h \<Longrightarrow> past (applyUpdate u h) = past h \<Longrightarrow>
             ?thesis"
    using handleRedo_moves [of h] handleRedo_empty [of h] by (cases "future h = []") auto
next
  case (Reset P)
  then show "past (applyUpdate u h) = past h \<Longrightarrow> future (applyUpdate u h) = future h \<Longrightarrow>
             ?thesis"
    by auto
qed

lemma stacks_alone:
  "past (applyUpdate u h) \<noteq> past h \<or> future (applyUpdate u h) \<noteq> future h \<Longrightarrow>
   present (applyUpdate u h) = present h \<Longrightarrow>
   \<not> isStreaming u \<and> installed u h = present h"
proof (cases u)
  case (SetMessages M b)
  then show "past (applyUpdate u h) \<noteq> past h \<or> future (applyUpdate u h) \<noteq> future h \<Longrightarrow>
             present (applyUpdate u h) = present h \<Longrightarrow> ?thesis"
    by (cases b) (simp_all add: setMessages_def)
next
  case (ChunkUpdate tx now)
  then show "past (applyUpdate u h) \<noteq> past h \<or> future (applyUpdate u h) \<noteq> future h \<Longrightarrow>
             ?thesis"
    by (simp add: chunkUpdate_def Let_def)
next
  case Undo
  then show "past (applyUpdate u h) \<noteq> past h \<or> future (applyUpdate u h) \<noteq> future h \<Longrightarrow>
             present (applyUpdate u h) = present h \<Longrightarrow> ?thesis"
    using handleUndo_moves [of h] handleUndo_empty [of h] by (cases "past h = []") auto
next
  case Redo
  then show "past (applyUpdate u h) \<noteq> past h \<or> future (applyUpdate u h) \<noteq> future h \<Longrightarrow>
             present (applyUpdate u h) = present h \<Longrightarrow> ?thesis"
    using handleRedo_moves [of h] handleRedo_empty [of h] by (cases "future h = []") auto
next
  case (Reset P)
  then show "present (applyUpdate u h) = present h \<Longrightarrow> ?thesis"
    by auto
qed

lemma initEffect_resets:
  "\<exists>messages. history (initEffect created parse now s) = applyUpdate (Reset messages) (history s)"
  by (auto simp: initEffect_def Let_def split: option.splits)

text \<open>
  C1, as the code has it, for every call of \<open>setHistory\<close>. A streaming update leaves
  \<open>past\<close> and \<open>future\<close> as they are. An update that changes \<open>present\<close> and neither
  \<open>past\<close> nor \<open>future\<close> is a streaming update, or it is a reset (clear, mount) of a
  history whose \<open>past\<close> and \<open>future\<close> are empty already. An update that changes
  \<open>past\<close> or \<open>future\<close> and not \<open>present\<close> is not a streaming one, and the list it
  makes \<open>present\<close> (the new list, the last entry of \<open>past\<close>, the first entry of
  \<open>future\<close>, the list of the reset) equals the old \<open>present\<close>. The clear, the mount
  effect and the first edit of \<open>sendMessage\<close> are such updates, and that edit changes
  both \<open>past\<close> and \<open>present\<close>.
\<close>

theorem history_updates:
  "(isStreaming u \<longrightarrow>
      past (applyUpdate u h) = past h \<and> future (applyUpdate u h) = future h) \<and>
   (present (applyUpdate u h) \<noteq> present h \<and> past (applyUpdate u h) = past h \<and>
    future (applyUpdate u h) = future h \<longrightarrow>
      isStreaming u \<or> (isReset u \<and> past h = [] \<and> future h = [])) \<and>
   ((past (applyUpdate u h) \<noteq> past h \<or> future (applyUpdate u h) \<noteq> future h) \<and>
    present (applyUpdate u h) = present h \<longrightarrow>
      \<not> isStreaming u \<and> installed u h = present h) \<and>
   history (handleClear True now s) = applyUpdate (Reset [greeting now]) (history s) \<and>
   (\<exists>messages. history (initEffect created parse now s) =
      applyUpdate (Reset messages) (history s)) \<and>
   history (beginSend tUser s) =
     applyUpdate (SetMessages (present (history s) @ [userMessage tUser s]) False) (history s) \<and>
   past (history (beginSend tUser s)) \<noteq> past (history s) \<and>
   present (history (beginSend tUser s)) \<noteq> present (history s)"
proof (intro conjI impI)
  assume "isStreaming u"
  then show "past (applyUpdate u h) = past h" and "future (applyUpdate u h) = future h"
    by (simp_all add: streaming_keeps_stacks)
next
  assume "present (applyUpdate u h) \<noteq> present h \<and> past (applyUpdate u h) = past h \<and>
    future (applyUpdate u h) = future h"
  then show "isStreaming u \<or> (isReset u \<and> past h = [] \<and> future h = [])"
    using present_alone [of u h] by blast
next
  assume a: "(past (applyUpdate u h) \<noteq> past h \<or> future (applyUpdate u h) \<noteq> future h) \<and>
    present (applyUpdate u h) = present h"
  then show "\<not> isStreaming u" using stacks_alone [of u h] by blast
  from a show "installed u h = present h" using stacks_alone [of u h] by blast
next
  show "history (handleClear True now s) = applyUpdate (Reset [greeting now]) (history s)"
    by (simp add: handleClear_def Let_def)
next
  show "\<exists>messages. history (initEffect created parse now s) =
      applyUpdate (Reset messages) (history s)"
    by (rule initEffect_resets)
next
  show "history (beginSend tUser s) =
     applyUpdate (SetMessages (present (history s) @ [userMessage tUser s]) False) (history s)"
    by (simp add: beginSend_def Let_def)
next
  show "past (history (beginSend tUser s)) \<noteq> past (history s)"
    by (simp add: beginSend_def setMessages_def Let_def)
next
  show "present (history (beginSend tUser s)) \<noteq> present (history s)"
    by (simp add: beginSend_def setMessages_def Let_def)
qed

text \<open>
  The theorem at a streaming update, at a clear of a conversation restored from the
  storage (both stacks empty), and at an undo that restores a list equal to
  \<open>present\<close>.
\<close>

theorem history_updates_witness:
  "isStreaming (SetMessages [greeting [], greeting [1], modelMessage [] []] True) \<and>
   past (applyUpdate (SetMessages [greeting [], greeting [1], modelMessage [] []] True)
      \<lparr>past = [[greeting []]], present = [greeting [], greeting [1]], future = []\<rparr>) =
     [[greeting []]] \<and>
   present (applyUpdate (Reset [greeting [2]])
      \<lparr>past = [], present = [greeting [], greeting [1]], future = []\<rparr>) \<noteq>
     [greeting [], greeting [1]] \<and>
   isReset (Reset [greeting [2]]) \<and>
   past (applyUpdate Undo \<lparr>past = [[greeting []]], present = [greeting []], future = []\<rparr>) \<noteq>
     [[greeting []]] \<and>
   present (applyUpdate Undo \<lparr>past = [[greeting []]], present = [greeting []], future = []\<rparr>) =
     [greeting []] \<and>
   installed Undo \<lparr>past = [[greeting []]], present = [greeting []], future = []\<rparr> =
     [greeting []]"
  using
    history_updates [of "SetMessages [greeting [], greeting [1], modelMessage [] []] True"
      "\<lparr>past = [[greeting []]], present = [greeting [], greeting [1]], future = []\<rparr>"
      "[]" "initialState Map.empty" True "\<lambda>saved. None" "[]"]
    history_updates [of "Reset [greeting [2]]"
      "\<lparr>past = [], present = [greeting [], greeting [1]], future = []\<rparr>"
      "[]" "initialState Map.empty" True "\<lambda>saved. None" "[]"]
    history_updates [of Undo
      "\<lparr>past = [[greeting []]], present = [greeting []], future = []\<rparr>"
      "[]" "initialState Map.empty" True "\<lambda>saved. None" "[]"]
  by (simp add: setMessages_def handleUndo_nonempty)

text \<open>
  The claim as the specification states it fails. The streaming update that adds the
  empty model message changes \<open>present\<close> and leaves \<open>past\<close> and \<open>future\<close> as they
  are; so does a clear of a conversation restored from the storage, whose \<open>past\<close> and
  \<open>future\<close> are empty. An undo whose restored list equals \<open>present\<close> changes \<open>past\<close>
  and \<open>future\<close> and leaves \<open>present\<close> as it is.
\<close>

theorem history_updates_counterexample:
  "present (setMessages [greeting [], greeting [1], modelMessage [] []] True
      \<lparr>past = [[greeting []]], present = [greeting [], greeting [1]], future = []\<rparr>)
     \<noteq> present \<lparr>past = [[greeting []]], present = [greeting [], greeting [1]], future = []\<rparr> \<and>
   past (setMessages [greeting [], greeting [1], modelMessage [] []] True
      \<lparr>past = [[greeting []]], present = [greeting [], greeting [1]], future = []\<rparr>)
     = past \<lparr>past = [[greeting []]], present = [greeting [], greeting [1]], future = []\<rparr> \<and>
   future (setMessages [greeting [], greeting [1], modelMessage [] []] True
      \<lparr>past = [[greeting []]], present = [greeting [], greeting [1]], future = []\<rparr>)
     = future \<lparr>past = [[greeting []]], present = [greeting [], greeting [1]], future = []\<rparr> \<and>
   present (history (handleClear True [2]
      \<lparr>chat = Some [], history = \<lparr>past = [], present = [greeting [], greeting [1]], future = []\<rparr>,
       input = [], isLoading = False, localStorage = Map.empty\<rparr>))
     \<noteq> [greeting [], greeting [1]] \<and>
   past (history (handleClear True [2]
      \<lparr>chat = Some [], history = \<lparr>past = [], present = [greeting [], greeting [1]], future = []\<rparr>,
       input = [], isLoading = False, localStorage = Map.empty\<rparr>)) = [] \<and>
   future (history (handleClear True [2]
      \<lparr>chat = Some [], history = \<lparr>past = [], present = [greeting [], greeting [1]], future = []\<rparr>,
       input = [], isLoading = False, localStorage = Map.empty\<rparr>)) = [] \<and>
   past (handleUndo \<lparr>past = [[greeting []]], present = [greeting []], future = []\<rparr>)
     \<noteq> past \<lparr>past = [[greeting []]], present = [greeting []], future = []\<rparr> \<and>
   future (handleUndo \<lparr>past = [[greeting []]], present = [greeting []], future = []\<rparr>)
     \<noteq> future \<lparr>past = [[greeting []]], present = [greeting []], future = []\<rparr> \<and>
   present (handleUndo \<lparr>past = [[greeting []]], present = [greeting []], future = []\<rparr>)
     = present \<lparr>past = [[greeting []]], present = [greeting []], future = []\<rparr>"
  by (simp add: setMessages_def handleUndo_def handleClear_def Let_def)

section \<open>The live transcript\<close>

lemma accumulate_transcripts: "transcripts (accumulate message s) = transcripts s"
  by (simp add: accumulate_def split: option.splits)

lemma flushTurn_transcripts:
  "transcripts (flushTurn message s) =
     (if turnCompleteOf message
      then transcripts s
           @ (if trim (currentInputTranscription s) \<noteq> []
              then [\<lparr>speaker = User, entryText = trim (currentInputTranscription s)\<rparr>]
              else [])
           @ (if trim (currentOutputTranscription s) \<noteq> []
              then [\<lparr>speaker = Model, entryText = trim (currentOutputTranscription s)\<rparr>]
              else [])
      else transcripts s)"
  by (simp add: flushTurn_def Let_def)

lemma flushTurn_resets:
  "turnCompleteOf message \<Longrightarrow>
   currentInputTranscription (flushTurn message s) = [] \<and>
   currentOutputTranscription (flushTurn message s) = []"
  by (simp add: flushTurn_def Let_def)

lemma interrupt_transcripts:
  "transcripts (interrupt message s) = transcripts s \<and>
   currentInputTranscription (interrupt message s) = currentInputTranscription s \<and>
   currentOutputTranscription (interrupt message s) = currentOutputTranscription s"
  by (simp add: interrupt_def)

lemma beforeDecode_transcripts:
  "transcripts (beforeDecode t message s) = transcripts s \<and>
   currentInputTranscription (beforeDecode t message s) = currentInputTranscription s \<and>
   currentOutputTranscription (beforeDecode t message s) = currentOutputTranscription s"
  by (simp add: beforeDecode_def split: option.splits)

lemma afterDecode_transcripts:
  "transcripts (afterDecode bd i s) = transcripts s \<and>
   currentInputTranscription (afterDecode bd i s) = currentInputTranscription s \<and>
   currentOutputTranscription (afterDecode bd i s) = currentOutputTranscription s"
  by (simp add: afterDecode_def Let_def)

lemma upToAwait_transcripts:
  "transcripts (upToAwait t message s) = transcripts (flushTurn message (accumulate message s)) \<and>
   currentInputTranscription (upToAwait t message s) =
     currentInputTranscription (flushTurn message (accumulate message s)) \<and>
   currentOutputTranscription (upToAwait t message s) =
     currentOutputTranscription (flushTurn message (accumulate message s))"
  by (simp add: upToAwait_def beforeDecode_transcripts interrupt_transcripts)

lemma onmessage_transcripts:
  "transcripts (onmessage bd t message s) = transcripts (flushTurn message (accumulate message s))"
  by (simp add: onmessage_def afterDecode_transcripts upToAwait_transcripts)

lemma onmessage_accumulators:
  "currentInputTranscription (onmessage bd t message s) =
     currentInputTranscription (flushTurn message (accumulate message s)) \<and>
   currentOutputTranscription (onmessage bd t message s) =
     currentOutputTranscription (flushTurn message (accumulate message s))"
  by (simp add: onmessage_def afterDecode_transcripts upToAwait_transcripts)

lemma onmessage_extends:
  "\<exists>new. transcripts (onmessage bd t message s) = transcripts s @ new"
  by (simp add: onmessage_transcripts flushTurn_transcripts accumulate_transcripts)

lemma onmessages_extends:
  "\<exists>new. transcripts (onmessages bd received s) = transcripts s @ new"
proof (induction received arbitrary: s)
  case Nil
  then show ?case by simp
next
  case (Cons e received)
  obtain t m where e: "e = (t, m)" by (cases e)
  obtain new1 where n1: "transcripts (onmessage bd t m s) = transcripts s @ new1"
    using onmessage_extends by blast
  obtain new2 where
    n2: "transcripts (onmessages bd received (onmessage bd t m s)) =
           transcripts (onmessage bd t m s) @ new2"
    using Cons.IH by blast
  show ?case by (simp add: e n1 n2)
qed

text \<open>
  C6. On a message with \<open>turnComplete\<close> set, the handler appends to the transcript
  the trimmed input transcription accumulated up to and including this message, as a user
  entry when it is not empty, then the trimmed output transcription, as a model entry
  when it is not empty, and empties both accumulators. On any other message the
  transcript is unchanged. Over any run of the handler the transcript it started with
  stays as a prefix: no entry is changed or removed.
\<close>

theorem transcript_flush:
  "(turnCompleteOf message \<longrightarrow>
      transcripts (onmessage bd t message s) =
        transcripts s
        @ (if trim (currentInputTranscription (accumulate message s)) \<noteq> []
           then [\<lparr>speaker = User,
                   entryText = trim (currentInputTranscription (accumulate message s))\<rparr>]
           else [])
        @ (if trim (currentOutputTranscription (accumulate message s)) \<noteq> []
           then [\<lparr>speaker = Model,
                   entryText = trim (currentOutputTranscription (accumulate message s))\<rparr>]
           else []) \<and>
      currentInputTranscription (onmessage bd t message s) = [] \<and>
      currentOutputTranscription (onmessage bd t message s) = []) \<and>
   (\<not> turnCompleteOf message \<longrightarrow> transcripts (onmessage bd t message s) = transcripts s) \<and>
   take (length (transcripts s)) (transcripts (onmessages bd received s)) = transcripts s"
proof (intro conjI impI)
  assume tc: "turnCompleteOf message"
  then show "transcripts (onmessage bd t message s) =
        transcripts s
        @ (if trim (currentInputTranscription (accumulate message s)) \<noteq> []
           then [\<lparr>speaker = User,
                   entryText = trim (currentInputTranscription (accumulate message s))\<rparr>]
           else [])
        @ (if trim (currentOutputTranscription (accumulate message s)) \<noteq> []
           then [\<lparr>speaker = Model,
                   entryText = trim (currentOutputTranscription (accumulate message s))\<rparr>]
           else [])"
    by (simp add: onmessage_transcripts flushTurn_transcripts accumulate_transcripts)
  from flushTurn_resets [OF tc, of "accumulate message s"]
  show "currentInputTranscription (onmessage bd t message s) = []"
    and "currentOutputTranscription (onmessage bd t message s) = []"
    by (simp_all add: onmessage_accumulators)
next
  assume "\<not> turnCompleteOf message"
  then show "transcripts (onmessage bd t message s) = transcripts s"
    by (simp add: onmessage_transcripts flushTurn_transcripts accumulate_transcripts)
next
  obtain new where "transcripts (onmessages bd received s) = transcripts s @ new"
    using onmessages_extends by blast
  then show "take (length (transcripts s)) (transcripts (onmessages bd received s)) =
               transcripts s"
    by simp
qed

theorem transcript_flush_witness:
  "turnCompleteOf
     \<lparr>serverContent = Some \<lparr>outputTranscription = Some (js ''yo''), inputTranscription = None,
        turnComplete = True, interrupted = False, audioData = None\<rparr>\<rparr> \<and>
   transcripts (onmessage (\<lambda>data. 2) (0::int)
     \<lparr>serverContent = Some \<lparr>outputTranscription = Some (js ''yo''), inputTranscription = None,
        turnComplete = True, interrupted = False, audioData = None\<rparr>\<rparr>
     \<lparr>transcripts = [\<lparr>speaker = User, entryText = js ''a''\<rparr>],
      currentInputTranscription = js '' hi '', currentOutputTranscription = js '' '',
      nextStartTime = 0, playingSources = {}, outputAudioContext = True, started = [],
      pending = []\<rparr>) =
     [\<lparr>speaker = User, entryText = js ''a''\<rparr>, \<lparr>speaker = User, entryText = js ''hi''\<rparr>,
      \<lparr>speaker = Model, entryText = js ''yo''\<rparr>] \<and>
   \<not> turnCompleteOf \<lparr>serverContent = None\<rparr> \<and>
   transcripts (onmessage (\<lambda>data. 2) (0::int) \<lparr>serverContent = None\<rparr>
     \<lparr>transcripts = [\<lparr>speaker = User, entryText = js ''a''\<rparr>],
      currentInputTranscription = js '' hi '', currentOutputTranscription = js '' '',
      nextStartTime = 0, playingSources = {}, outputAudioContext = True, started = [],
      pending = []\<rparr>) =
     [\<lparr>speaker = User, entryText = js ''a''\<rparr>]"
proof -
  have tc: "turnCompleteOf
     \<lparr>serverContent = Some \<lparr>outputTranscription = Some (js ''yo''), inputTranscription = None,
        turnComplete = True, interrupted = False, audioData = None\<rparr>\<rparr>"
    by (simp add: turnCompleteOf_def)
  have ntc: "\<not> turnCompleteOf \<lparr>serverContent = None\<rparr>"
    by (simp add: turnCompleteOf_def)
  have tr: "trim (js '' hi '') = js ''hi''" "trim (js '' '' @ js ''yo'') = js ''yo''"
    "js ''hi'' \<noteq> []" "js ''yo'' \<noteq> []"
    by (simp_all add: trim_def js_def isWhiteSpace_def)
  from tc ntc tr
    transcript_flush [of
      "\<lparr>serverContent = Some \<lparr>outputTranscription = Some (js ''yo''),
          inputTranscription = None, turnComplete = True, interrupted = False,
          audioData = None\<rparr>\<rparr>"
      "\<lambda>data. 2" "0::int"
      "\<lparr>transcripts = [\<lparr>speaker = User, entryText = js ''a''\<rparr>],
        currentInputTranscription = js '' hi '', currentOutputTranscription = js '' '',
        nextStartTime = 0, playingSources = {}, outputAudioContext = True, started = [],
      pending = []\<rparr>" "[]"]
    transcript_flush [of "\<lparr>serverContent = None\<rparr>" "\<lambda>data. 2" "0::int"
      "\<lparr>transcripts = [\<lparr>speaker = User, entryText = js ''a''\<rparr>],
        currentInputTranscription = js '' hi '', currentOutputTranscription = js '' '',
        nextStartTime = 0, playingSources = {}, outputAudioContext = True, started = [],
      pending = []\<rparr>" "[]"]
  show ?thesis by (simp add: accumulate_def)
qed

section \<open>Scheduling of the audio received\<close>














section \<open>Scheduling when handlers interleave\<close>








end
